theory Spec2Isabelle
  imports Main
begin

section \<open>The Go runtime as seen by the provider\<close>

text \<open>
  The provider is glue between the plugin framework and a REST API. Everything it calls
  outside the repository is either written out here (decimal formatting, the values
  \<open>types.String\<close> can take, the diagnostics collection) or taken as a field of the record
  \<open>runtime\<close> below (scanning, JSON, the HTTP transport, time formatting), so that every
  theorem holds for whatever these library functions and the remote server answer.

  A Go \<open>error\<close> is modelled by its message: the client builds its errors with
  \<open>fmt.Errorf\<close> and the adapters print them with \<open>%s\<close>. A result \<open>(v, err)\<close> is a sum,
  \<open>Inl\<close> the message of a non-nil error. A Go \<open>int\<close> is an \<open>int\<close>: identifiers and status
  codes are only compared and printed, never computed with.
\<close>

type_synonym error = string

text \<open>\<open>fmt.Sprintf("%d", i)\<close>: the decimal digits, with a minus sign for negative numbers.\<close>

fun decimal :: "nat \<Rightarrow> string" where
  "decimal n =
     (if n < 10 then [''0123456789'' ! n]
      else decimal (n div 10) @ [''0123456789'' ! (n mod 10)])"

declare decimal.simps [simp del]

definition Sprintf_d :: "int \<Rightarrow> string" where
  "Sprintf_d i = (if i < 0 then CHR ''-'' # decimal (nat (- i)) else decimal (nat i))"

subsection \<open>Framework values: \<open>types.String\<close> and diagnostics\<close>

text \<open>
  A \<open>types.String\<close> is null, unknown or a known string; \<open>ValueString\<close> gives the empty
  string for the first two.
\<close>

datatype tf_String = StringNull | StringUnknown | StringValue string

fun ValueString :: "tf_String \<Rightarrow> string" where
  "ValueString (StringValue s) = s"
| "ValueString StringNull = ''''"
| "ValueString StringUnknown = ''''"

datatype Severity = SeverityError | SeverityWarning

record Diagnostic =
  severity :: Severity
  summary :: string
  detail :: string

text \<open>
  \<open>Diagnostics.Append\<close> adds each diagnostic that the collection does not hold yet;
  \<open>AddError\<close> appends one error; \<open>HasError\<close> looks for an error.
\<close>

fun Append :: "Diagnostic list \<Rightarrow> Diagnostic list \<Rightarrow> Diagnostic list" where
  "Append ds [] = ds"
| "Append ds (d # rest) = Append (if d \<in> set ds then ds else ds @ [d]) rest"

definition AddError :: "Diagnostic list \<Rightarrow> string \<Rightarrow> string \<Rightarrow> Diagnostic list" where
  "AddError ds s d = Append ds [\<lparr>severity = SeverityError, summary = s, detail = d\<rparr>]"

definition HasError :: "Diagnostic list \<Rightarrow> bool" where
  "HasError ds = list_ex (\<lambda>d. severity d = SeverityError) ds"

text \<open>
  \<open>req.Plan.Get\<close>, \<open>req.State.Get\<close> and \<open>req.Config.Get\<close> yield diagnostics and the
  populated struct: a pair.
\<close>

type_synonym 'm Got = "Diagnostic list \<times> 'm"

text \<open>The provider's configuration, \<open>TaskMateProviderModel\<close>.\<close>

record TaskMateProviderModel =
  Host :: tf_String
  Token :: tf_String

subsection \<open>HTTP messages and the library functions taken as given\<close>

text \<open>
  A request as \<open>makeRequest\<close> builds it: method, URL, header fields and the marshalled
  body (\<open>None\<close> for a nil body). A response is its status code and the bytes of its body.
\<close>

record Request =
  Method :: string
  URL :: string
  Header :: "string \<rightharpoonup> string"
  Body :: "string option"

record Response =
  StatusCode :: int
  Body :: string

text \<open>\<open>Task\<close> (client.go); \<open>'t\<close> stands for \<open>time.Time\<close>.\<close>

record 't Task =
  ID :: int
  Title :: string
  Description :: string
  DueDate :: string
  Priority :: string
  Status :: string
  CreatedAt :: 't
  UpdatedAt :: 't

text \<open>
  The library calls of the repository:
  \<^item> \<open>Sscanf_d s\<close> is \<open>fmt.Sscanf(s, "%d", &id)\<close>: the error, or the integer scanned;
  \<^item> \<open>json_Marshal m\<close> is \<open>json.Marshal\<close> of a \<open>map[string]string\<close>;
  \<^item> \<open>NewRequest_error method url\<close> is the error of \<open>http.NewRequest\<close>, if it refuses
    the method or the URL;
  \<^item> \<open>client_Do req\<close> is \<open>c.client.Do(req)\<close>: a transport error, or the response of the
    remote API;
  \<^item> \<open>Decode_Task\<close> and \<open>Decode_Tasks\<close> are \<open>json.NewDecoder(resp.Body).Decode\<close> into a
    \<open>Task\<close> and into a \<open>[]*Task\<close> (a nil pointer in the slice is \<open>None\<close>);
  \<^item> \<open>time_Format t layout\<close> is \<open>t.Format(layout)\<close>.
\<close>

record 't runtime =
  Sscanf_d :: "string \<Rightarrow> error + int"
  json_Marshal :: "(string \<rightharpoonup> string) \<Rightarrow> error + string"
  NewRequest_error :: "string \<Rightarrow> string \<Rightarrow> error option"
  client_Do :: "Request \<Rightarrow> error + Response"
  Decode_Task :: "string \<Rightarrow> error + 't Task"
  Decode_Tasks :: "string \<Rightarrow> error + 't Task option list"
  time_Format :: "'t \<Rightarrow> string \<Rightarrow> string"

definition http_NewRequest ::
  "'t runtime \<Rightarrow> string \<Rightarrow> string \<Rightarrow> string option \<Rightarrow> error + Request" where
  "http_NewRequest rt method url reqBody =
     (case NewRequest_error rt method url of
        Some err \<Rightarrow> Inl err
      | None \<Rightarrow> Inr \<lparr>Method = method, URL = url, Header = Map.empty, Request.Body = reqBody\<rparr>)"

definition Header_Set :: "Request \<Rightarrow> string \<Rightarrow> string \<Rightarrow> Request" where
  "Header_Set req k v = req\<lparr>Header := (Header req)(k \<mapsto> v)\<rparr>"

subsection \<open>\<open>fmt.Sscanf\<close> with the verb \<open>%d\<close>\<close>

text \<open>
  What Go's scanner does with \<open>fmt.Sscanf(s, "%d", &id)\<close>, on the bytes of \<open>s\<close>: it skips
  leading spaces (tab, vertical tab, form feed, carriage return, blank, and the UTF-8
  forms of U+0085, U+00A0, U+1680, U+2000 to U+200A, U+2028, U+2029, U+202F, U+205F and
  U+3000), but a newline there is an error; it accepts one sign and then the longest run
  of decimal digits, which must not be empty; it hands sign and digits to
  \<open>strconv.ParseInt\<close> for 64 bits; and it leaves the rest of the input unread, whatever
  it is. An \<open>int\<close> has 64 bits. The callbacks take their scanner from the runtime; this
  one is put there to run them on an identifier that was imported.
\<close>

fun SkipSpace :: "string \<Rightarrow> error + string" where
  "SkipSpace [] = Inr []"
| "SkipSpace (c # cs) =
     (if c = CHR 0x0A then Inl ''unexpected newline''
      else if c \<in> set [CHR 0x09, CHR 0x0B, CHR 0x0C, CHR 0x0D, CHR 0x20] then SkipSpace cs
      else if c = CHR 0xC2 then
        (case cs of
           d # ds \<Rightarrow> if d = CHR 0x85 \<or> d = CHR 0xA0 then SkipSpace ds else Inr (c # cs)
         | [] \<Rightarrow> Inr (c # cs))
      else if c \<in> set [CHR 0xE1, CHR 0xE2, CHR 0xE3] then
        (case cs of
           d # e # es \<Rightarrow>
             if [c, d, e] \<in> set ([[CHR 0xE1, CHR 0x9A, CHR 0x80], [CHR 0xE2, CHR 0x80, CHR 0xA8],
                                  [CHR 0xE2, CHR 0x80, CHR 0xA9], [CHR 0xE2, CHR 0x80, CHR 0xAF],
                                  [CHR 0xE2, CHR 0x81, CHR 0x9F], [CHR 0xE3, CHR 0x80, CHR 0x80]]
                                 @ map (\<lambda>b. [CHR 0xE2, CHR 0x80, b])
                                     [CHR 0x80, CHR 0x81, CHR 0x82, CHR 0x83, CHR 0x84, CHR 0x85,
                                      CHR 0x86, CHR 0x87, CHR 0x88, CHR 0x89, CHR 0x8A])
             then SkipSpace es else Inr (c # cs)
         | _ \<Rightarrow> Inr (c # cs))
      else Inr (c # cs))"

definition isDigit :: "char \<Rightarrow> bool" where
  "isDigit c = (c \<in> set ''0123456789'')"

definition digits_value :: "string \<Rightarrow> int" where
  "digits_value ds = foldl (\<lambda>a c. 10 * a + (of_char c - 48)) 0 ds"

definition fmt_Sscanf_d :: "string \<Rightarrow> error + int" where
  "fmt_Sscanf_d str =
     (case SkipSpace str of
        Inl err \<Rightarrow> Inl err
      | Inr [] \<Rightarrow> Inl ''EOF''
      | Inr (c # cs) \<Rightarrow>
          (let sgn = (if c = CHR ''+'' \<or> c = CHR ''-'' then [c] else []);
               rest = (if sgn = [] then c # cs else cs)
           in case rest of
                [] \<Rightarrow> Inl ''EOF''
              | d # ds \<Rightarrow>
                  if \<not> isDigit d then Inl ''expected integer''
                  else
                    (let tok = sgn @ takeWhile isDigit rest;
                         i = (if sgn = ''-'' then - digits_value (takeWhile isDigit rest)
                              else digits_value (takeWhile isDigit rest))
                     in if i < - (2 ^ 63) \<or> 2 ^ 63 \<le> i
                        then Inl (''strconv.ParseInt: parsing '' @ [CHR 0x22] @ tok @ [CHR 0x22]
                                  @ '': value out of range'')
                        else Inr i)))"

section \<open>The API client (client.go)\<close>

record Client =
  Host :: string
  Token :: string

definition NewClient :: "string \<Rightarrow> string \<Rightarrow> Client" where
  "NewClient host token = \<lparr>Host = host, Token = token\<rparr>"

text \<open>
  Every client function returns its Go result together with the requests it handed to
  the transport, in order: the remote calls it made.
\<close>

definition makeRequest ::
  "'t runtime \<Rightarrow> Client \<Rightarrow> string \<Rightarrow> string \<Rightarrow> (string \<rightharpoonup> string) option
     \<Rightarrow> (error + Response) \<times> Request list" where
  "makeRequest rt c method path body =
     (let url = Host c @ ''/api/v1'' @ path in
      case (case body of
              None \<Rightarrow> Inr None
            | Some b \<Rightarrow>
                (case json_Marshal rt b of
                   Inl err \<Rightarrow> Inl (''failed to marshal request body: '' @ err)
                 | Inr jsonBody \<Rightarrow> Inr (Some jsonBody))) of
        Inl err \<Rightarrow> (Inl err, [])
      | Inr reqBody \<Rightarrow>
          (case http_NewRequest rt method url reqBody of
             Inl err \<Rightarrow> (Inl (''failed to create request: '' @ err), [])
           | Inr req0 \<Rightarrow>
               (let req1 = (if Token c \<noteq> '''' then Header_Set req0 ''X-API-Token'' (Token c)
                            else req0);
                    req = Header_Set req1 ''Content-Type'' ''application/json''
                in (client_Do rt req, [req]))))"

definition CreateTask ::
  "'t runtime \<Rightarrow> Client \<Rightarrow> string \<Rightarrow> string \<Rightarrow> string \<Rightarrow> string
     \<Rightarrow> (error + 't Task) \<times> Request list" where
  "CreateTask rt c title description dueDate priority =
     (let reqBody = [''title'' \<mapsto> title, ''description'' \<mapsto> description,
                     ''due_date'' \<mapsto> dueDate, ''priority'' \<mapsto> priority]
      in case makeRequest rt c ''POST'' ''/tasks'' (Some reqBody) of
           (Inl err, sent) \<Rightarrow> (Inl err, sent)
         | (Inr resp, sent) \<Rightarrow>
             if StatusCode resp \<noteq> 201
             then (Inl (''API error: '' @ Response.Body resp @ '' (status: ''
                        @ Sprintf_d (StatusCode resp) @ '')''), sent)
             else (case Decode_Task rt (Response.Body resp) of
                     Inl err \<Rightarrow> (Inl (''failed to decode response: '' @ err), sent)
                   | Inr task \<Rightarrow> (Inr task, sent)))"

definition GetTask :: "'t runtime \<Rightarrow> Client \<Rightarrow> int \<Rightarrow> (error + 't Task) \<times> Request list" where
  "GetTask rt c task_id =
     (case makeRequest rt c ''GET'' (''/tasks/'' @ Sprintf_d task_id) None of
        (Inl err, sent) \<Rightarrow> (Inl err, sent)
      | (Inr resp, sent) \<Rightarrow>
          if StatusCode resp = 404
          then (Inl (''task with ID '' @ Sprintf_d task_id @ '' not found''), sent)
          else if StatusCode resp \<noteq> 200
          then (Inl (''API error: '' @ Response.Body resp @ '' (status: ''
                     @ Sprintf_d (StatusCode resp) @ '')''), sent)
          else (case Decode_Task rt (Response.Body resp) of
                  Inl err \<Rightarrow> (Inl (''failed to decode response: '' @ err), sent)
                | Inr task \<Rightarrow> (Inr task, sent)))"

definition UpdateTask ::
  "'t runtime \<Rightarrow> Client \<Rightarrow> int \<Rightarrow> string \<Rightarrow> string \<Rightarrow> string \<Rightarrow> string \<Rightarrow> string
     \<Rightarrow> (error + 't Task) \<times> Request list" where
  "UpdateTask rt c task_id title description dueDate priority status =
     (let reqBody = [''title'' \<mapsto> title, ''description'' \<mapsto> description,
                     ''due_date'' \<mapsto> dueDate, ''priority'' \<mapsto> priority,
                     ''status'' \<mapsto> status]
      in case makeRequest rt c ''PUT'' (''/tasks/'' @ Sprintf_d task_id) (Some reqBody) of
           (Inl err, sent) \<Rightarrow> (Inl err, sent)
         | (Inr resp, sent) \<Rightarrow>
             if StatusCode resp = 404
             then (Inl (''task with ID '' @ Sprintf_d task_id @ '' not found''), sent)
             else if StatusCode resp \<noteq> 200
             then (Inl (''API error: '' @ Response.Body resp @ '' (status: ''
                        @ Sprintf_d (StatusCode resp) @ '')''), sent)
             else (case Decode_Task rt (Response.Body resp) of
                     Inl err \<Rightarrow> (Inl (''failed to decode response: '' @ err), sent)
                   | Inr task \<Rightarrow> (Inr task, sent)))"

text \<open>\<open>DeleteTask\<close> returns an \<open>error\<close> only: \<open>None\<close> is nil.\<close>

definition DeleteTask :: "'t runtime \<Rightarrow> Client \<Rightarrow> int \<Rightarrow> error option \<times> Request list" where
  "DeleteTask rt c task_id =
     (case makeRequest rt c ''DELETE'' (''/tasks/'' @ Sprintf_d task_id) None of
        (Inl err, sent) \<Rightarrow> (Some err, sent)
      | (Inr resp, sent) \<Rightarrow>
          if StatusCode resp = 404
          then (Some (''task with ID '' @ Sprintf_d task_id @ '' not found''), sent)
          else if StatusCode resp \<noteq> 204
          then (Some (''API error: '' @ Response.Body resp @ '' (status: ''
                      @ Sprintf_d (StatusCode resp) @ '')''), sent)
          else (None, sent))"

definition ListTasks :: "'t runtime \<Rightarrow> Client \<Rightarrow> (error + 't Task option list) \<times> Request list" where
  "ListTasks rt c =
     (case makeRequest rt c ''GET'' ''/tasks'' None of
        (Inl err, sent) \<Rightarrow> (Inl err, sent)
      | (Inr resp, sent) \<Rightarrow>
          if StatusCode resp \<noteq> 200
          then (Inl (''API error: '' @ Response.Body resp @ '' (status: ''
                     @ Sprintf_d (StatusCode resp) @ '')''), sent)
          else (case Decode_Tasks rt (Response.Body resp) of
                  Inl err \<Rightarrow> (Inl (''failed to decode response: '' @ err), sent)
                | Inr tasks \<Rightarrow> (Inr tasks, sent)))"

section \<open>The provider: \<open>TaskMateProvider.Configure\<close>\<close>

text \<open>
  Of \<open>provider.ConfigureResponse\<close>, \<open>Configure\<close> touches the diagnostics and the two
  places where the client is left for the resources and the data sources.
\<close>

record ConfigureResponse =
  DataSourceData :: "Client option"
  ResourceData :: "Client option"
  Diagnostics :: "Diagnostic list"

definition TaskMateProvider_Configure ::
  "TaskMateProviderModel Got \<Rightarrow> ConfigureResponse \<Rightarrow> ConfigureResponse" where
  "TaskMateProvider_Configure config resp0 =
     (let data = snd config;
          resp = resp0\<lparr>Diagnostics := Append (Diagnostics resp0) (fst config)\<rparr>
      in if HasError (Diagnostics resp) then resp
         else
           (let host0 = ValueString (TaskMateProviderModel.Host data);
                host = (if host0 = '''' then ''http://localhost:8080'' else host0);
                token = ValueString (TaskMateProviderModel.Token data);
                client = NewClient host token
            in resp\<lparr>DataSourceData := Some client, ResourceData := Some client\<rparr>))"

section \<open>The managed resource (task_resource.go)\<close>

text \<open>
  What a callback hands back. Of the response
  (\<open>resource.CreateResponse\<close>, \<open>ReadResponse\<close>, \<open>UpdateResponse\<close>, \<open>DeleteResponse\<close>,
  \<open>datasource.ReadResponse\<close>) the callbacks touch the state and the diagnostics; a state
  that holds nothing is \<open>None\<close>. \<open>State.Set\<close> with a struct that matches the schema
  stores it and reports nothing.
\<close>

record 'm CallbackResponse =
  State :: "'m option"
  Diagnostics :: "Diagnostic list"

definition State_Set :: "'m \<Rightarrow> 'm option \<times> Diagnostic list" where
  "State_Set data = (Some data, [])"

record TaskResourceModel =
  ID :: tf_String
  Title :: tf_String
  Description :: tf_String
  DueDate :: tf_String
  Priority :: tf_String
  Status :: tf_String
  CreatedAt :: tf_String
  UpdatedAt :: tf_String

text \<open>
  A callback takes the runtime, the client of its receiver (set by \<open>Configure\<close> before
  the framework calls anything else), what \<open>Get\<close> yields on the request, and the
  response as the framework prepared it; it returns the response as it leaves it and
  the requests sent meanwhile.
\<close>

definition TaskResource_Create ::
  "'t runtime \<Rightarrow> Client \<Rightarrow> TaskResourceModel Got \<Rightarrow> TaskResourceModel CallbackResponse
     \<Rightarrow> TaskResourceModel CallbackResponse \<times> Request list" where
  "TaskResource_Create rt client plan resp0 =
     (let data = snd plan;
          resp = resp0\<lparr>Diagnostics := Append (Diagnostics resp0) (fst plan)\<rparr>
      in if HasError (Diagnostics resp) then (resp, [])
         else
           case CreateTask rt client
                  (ValueString (TaskResourceModel.Title data))
                  (ValueString (TaskResourceModel.Description data))
                  (ValueString (TaskResourceModel.DueDate data))
                  (ValueString (TaskResourceModel.Priority data)) of
             (Inl err, sent) \<Rightarrow>
               (resp\<lparr>Diagnostics := AddError (Diagnostics resp) ''Client Error''
                        (''Unable to create task, got error: '' @ err)\<rparr>, sent)
           | (Inr task, sent) \<Rightarrow>
               (let data' = data
                      \<lparr>TaskResourceModel.ID := StringValue (Sprintf_d (Task.ID task)),
                       TaskResourceModel.Title := StringValue (Task.Title task),
                       TaskResourceModel.Description := StringValue (Task.Description task),
                       TaskResourceModel.DueDate := StringValue (Task.DueDate task),
                       TaskResourceModel.Priority := StringValue (Task.Priority task),
                       TaskResourceModel.Status := StringValue (Task.Status task),
                       TaskResourceModel.CreatedAt := StringValue
                         (time_Format rt (Task.CreatedAt task) ''2006-01-02T15:04:05Z07:00''),
                       TaskResourceModel.UpdatedAt := StringValue
                         (time_Format rt (Task.UpdatedAt task) ''2006-01-02T15:04:05Z07:00'')\<rparr>
                in (resp\<lparr>State := fst (State_Set data'),
                          Diagnostics := Append (Diagnostics resp) (snd (State_Set data'))\<rparr>,
                    sent)))"

definition TaskResource_Read ::
  "'t runtime \<Rightarrow> Client \<Rightarrow> TaskResourceModel Got \<Rightarrow> TaskResourceModel CallbackResponse
     \<Rightarrow> TaskResourceModel CallbackResponse \<times> Request list" where
  "TaskResource_Read rt client state resp0 =
     (let data = snd state;
          resp = resp0\<lparr>Diagnostics := Append (Diagnostics resp0) (fst state)\<rparr>
      in if HasError (Diagnostics resp) then (resp, [])
         else
           case Sscanf_d rt (ValueString (TaskResourceModel.ID data)) of
             Inl err \<Rightarrow>
               (resp\<lparr>Diagnostics := AddError (Diagnostics resp) ''Parse Error''
                        (''Unable to parse task ID: '' @ err)\<rparr>, [])
           | Inr task_id \<Rightarrow>
               (case GetTask rt client task_id of
                  (Inl err, sent) \<Rightarrow>
                    (resp\<lparr>Diagnostics := AddError (Diagnostics resp) ''Client Error''
                             (''Unable to read task, got error: '' @ err)\<rparr>, sent)
                | (Inr task, sent) \<Rightarrow>
                    (let data' = data
                           \<lparr>TaskResourceModel.Title := StringValue (Task.Title task),
                            TaskResourceModel.Description := StringValue (Task.Description task),
                            TaskResourceModel.DueDate := StringValue (Task.DueDate task),
                            TaskResourceModel.Priority := StringValue (Task.Priority task),
                            TaskResourceModel.Status := StringValue (Task.Status task),
                            TaskResourceModel.CreatedAt := StringValue
                              (time_Format rt (Task.CreatedAt task) ''2006-01-02T15:04:05Z07:00''),
                            TaskResourceModel.UpdatedAt := StringValue
                              (time_Format rt (Task.UpdatedAt task) ''2006-01-02T15:04:05Z07:00'')\<rparr>
                     in (resp\<lparr>State := fst (State_Set data'),
                               Diagnostics := Append (Diagnostics resp) (snd (State_Set data'))\<rparr>,
                         sent))))"

definition TaskResource_Update ::
  "'t runtime \<Rightarrow> Client \<Rightarrow> TaskResourceModel Got \<Rightarrow> TaskResourceModel CallbackResponse
     \<Rightarrow> TaskResourceModel CallbackResponse \<times> Request list" where
  "TaskResource_Update rt client plan resp0 =
     (let data = snd plan;
          resp = resp0\<lparr>Diagnostics := Append (Diagnostics resp0) (fst plan)\<rparr>
      in if HasError (Diagnostics resp) then (resp, [])
         else
           case Sscanf_d rt (ValueString (TaskResourceModel.ID data)) of
             Inl err \<Rightarrow>
               (resp\<lparr>Diagnostics := AddError (Diagnostics resp) ''Parse Error''
                        (''Unable to parse task ID: '' @ err)\<rparr>, [])
           | Inr task_id \<Rightarrow>
               (case UpdateTask rt client task_id
                       (ValueString (TaskResourceModel.Title data))
                       (ValueString (TaskResourceModel.Description data))
                       (ValueString (TaskResourceModel.DueDate data))
                       (ValueString (TaskResourceModel.Priority data))
                       (ValueString (TaskResourceModel.Status data)) of
                  (Inl err, sent) \<Rightarrow>
                    (resp\<lparr>Diagnostics := AddError (Diagnostics resp) ''Client Error''
                             (''Unable to update task, got error: '' @ err)\<rparr>, sent)
                | (Inr task, sent) \<Rightarrow>
                    (let data' = data
                           \<lparr>TaskResourceModel.Title := StringValue (Task.Title task),
                            TaskResourceModel.Description := StringValue (Task.Description task),
                            TaskResourceModel.DueDate := StringValue (Task.DueDate task),
                            TaskResourceModel.Priority := StringValue (Task.Priority task),
                            TaskResourceModel.Status := StringValue (Task.Status task),
                            TaskResourceModel.CreatedAt := StringValue
                              (time_Format rt (Task.CreatedAt task) ''2006-01-02T15:04:05Z07:00''),
                            TaskResourceModel.UpdatedAt := StringValue
                              (time_Format rt (Task.UpdatedAt task) ''2006-01-02T15:04:05Z07:00'')\<rparr>
                     in (resp\<lparr>State := fst (State_Set data'),
                               Diagnostics := Append (Diagnostics resp) (snd (State_Set data'))\<rparr>,
                         sent))))"

definition TaskResource_Delete ::
  "'t runtime \<Rightarrow> Client \<Rightarrow> TaskResourceModel Got \<Rightarrow> TaskResourceModel CallbackResponse
     \<Rightarrow> TaskResourceModel CallbackResponse \<times> Request list" where
  "TaskResource_Delete rt client state resp0 =
     (let data = snd state;
          resp = resp0\<lparr>Diagnostics := Append (Diagnostics resp0) (fst state)\<rparr>
      in if HasError (Diagnostics resp) then (resp, [])
         else
           case Sscanf_d rt (ValueString (TaskResourceModel.ID data)) of
             Inl err \<Rightarrow>
               (resp\<lparr>Diagnostics := AddError (Diagnostics resp) ''Parse Error''
                        (''Unable to parse task ID: '' @ err)\<rparr>, [])
           | Inr task_id \<Rightarrow>
               (case DeleteTask rt client task_id of
                  (Some err, sent) \<Rightarrow>
                    (resp\<lparr>Diagnostics := AddError (Diagnostics resp) ''Client Error''
                             (''Unable to delete task, got error: '' @ err)\<rparr>, sent)
                | (None, sent) \<Rightarrow> (resp, sent)))"

section \<open>The data sources (task_data_source.go, tasks_data_source.go)\<close>

record TaskDataSourceModel =
  ID :: tf_String
  Title :: tf_String
  Description :: tf_String
  DueDate :: tf_String
  Priority :: tf_String
  Status :: tf_String
  CreatedAt :: tf_String
  UpdatedAt :: tf_String

definition TaskDataSource_Read ::
  "'t runtime \<Rightarrow> Client \<Rightarrow> TaskDataSourceModel Got \<Rightarrow> TaskDataSourceModel CallbackResponse
     \<Rightarrow> TaskDataSourceModel CallbackResponse \<times> Request list" where
  "TaskDataSource_Read rt client config resp0 =
     (let data = snd config;
          resp = resp0\<lparr>Diagnostics := Append (Diagnostics resp0) (fst config)\<rparr>
      in if HasError (Diagnostics resp) then (resp, [])
         else
           case Sscanf_d rt (ValueString (TaskDataSourceModel.ID data)) of
             Inl err \<Rightarrow>
               (resp\<lparr>Diagnostics := AddError (Diagnostics resp) ''Parse Error''
                        (''Unable to parse task ID: '' @ err)\<rparr>, [])
           | Inr task_id \<Rightarrow>
               (case GetTask rt client task_id of
                  (Inl err, sent) \<Rightarrow>
                    (resp\<lparr>Diagnostics := AddError (Diagnostics resp) ''Client Error''
                             (''Unable to read task, got error: '' @ err)\<rparr>, sent)
                | (Inr task, sent) \<Rightarrow>
                    (let data' = data
                           \<lparr>TaskDataSourceModel.Title := StringValue (Task.Title task),
                            TaskDataSourceModel.Description := StringValue (Task.Description task),
                            TaskDataSourceModel.DueDate := StringValue (Task.DueDate task),
                            TaskDataSourceModel.Priority := StringValue (Task.Priority task),
                            TaskDataSourceModel.Status := StringValue (Task.Status task),
                            TaskDataSourceModel.CreatedAt := StringValue
                              (time_Format rt (Task.CreatedAt task) ''2006-01-02T15:04:05Z07:00''),
                            TaskDataSourceModel.UpdatedAt := StringValue
                              (time_Format rt (Task.UpdatedAt task) ''2006-01-02T15:04:05Z07:00'')\<rparr>
                     in (resp\<lparr>State := fst (State_Set data'),
                               Diagnostics := Append (Diagnostics resp) (snd (State_Set data'))\<rparr>,
                         sent))))"

record TasksDataSourceModel =
  Tasks :: "TaskDataSourceModel list"
  ID :: tf_String

text \<open>
  \<open>ListTasks\<close> returns a \<open>[]*Task\<close>. The loop of \<open>TasksDataSource.Read\<close> reads the fields of
  every element, so a nil element makes it panic; a callback that panics returns nothing.
\<close>

datatype 'a go_result = Panics | Returns 'a

fun Read_loop :: "'t runtime \<Rightarrow> 't Task option list \<Rightarrow> TaskDataSourceModel list go_result" where
  "Read_loop rt [] = Returns []"
| "Read_loop rt (None # rest) = Panics"
| "Read_loop rt (Some task # rest) =
     (case Read_loop rt rest of
        Panics \<Rightarrow> Panics
      | Returns models \<Rightarrow>
          Returns
            (\<lparr>TaskDataSourceModel.ID = StringValue (Sprintf_d (Task.ID task)),
              TaskDataSourceModel.Title = StringValue (Task.Title task),
              TaskDataSourceModel.Description = StringValue (Task.Description task),
              TaskDataSourceModel.DueDate = StringValue (Task.DueDate task),
              TaskDataSourceModel.Priority = StringValue (Task.Priority task),
              TaskDataSourceModel.Status = StringValue (Task.Status task),
              TaskDataSourceModel.CreatedAt = StringValue
                (time_Format rt (Task.CreatedAt task) ''2006-01-02T15:04:05Z07:00''),
              TaskDataSourceModel.UpdatedAt = StringValue
                (time_Format rt (Task.UpdatedAt task) ''2006-01-02T15:04:05Z07:00'')\<rparr>
             # models))"

definition TasksDataSource_Read ::
  "'t runtime \<Rightarrow> Client \<Rightarrow> TasksDataSourceModel Got \<Rightarrow> TasksDataSourceModel CallbackResponse
     \<Rightarrow> TasksDataSourceModel CallbackResponse go_result \<times> Request list" where
  "TasksDataSource_Read rt client config resp0 =
     (let data = snd config;
          resp = resp0\<lparr>Diagnostics := Append (Diagnostics resp0) (fst config)\<rparr>
      in if HasError (Diagnostics resp) then (Returns resp, [])
         else
           case ListTasks rt client of
             (Inl err, sent) \<Rightarrow>
               (Returns (resp\<lparr>Diagnostics := AddError (Diagnostics resp) ''Client Error''
                                 (''Unable to list tasks, got error: '' @ err)\<rparr>), sent)
           | (Inr tasks, sent) \<Rightarrow>
               (case Read_loop rt tasks of
                  Panics \<Rightarrow> (Panics, sent)
                | Returns models \<Rightarrow>
                    (let data' = data\<lparr>Tasks := models,
                                      TasksDataSourceModel.ID := StringValue ''tasks''\<rparr>
                     in (Returns
                           (resp\<lparr>State := fst (State_Set data'),
                                 Diagnostics := Append (Diagnostics resp) (snd (State_Set data'))\<rparr>),
                         sent))))"

section \<open>A sample runtime\<close>

text \<open>
  Concrete inputs for running the callbacks: a runtime whose remote side is a given
  function of the request, with time stamps that are seconds since the epoch, a scanner
  that knows the identifiers \<open>7\<close> and \<open>8\<close>, and a remote task with the identifier 7.
\<close>

definition sample_task :: "nat Task" where
  "sample_task =
     \<lparr>Task.ID = 7, Task.Title = ''Deploy'', Task.Description = ''v2'',
      Task.DueDate = ''2026-02-22'', Task.Priority = ''high'', Task.Status = ''pending'',
      Task.CreatedAt = 100, Task.UpdatedAt = 200\<rparr>"

definition sample_runtime :: "(Request \<Rightarrow> error + Response) \<Rightarrow> nat runtime" where
  "sample_runtime server =
     \<lparr>Sscanf_d =
        (\<lambda>s. if s = ''7'' then Inr 7 else if s = ''8'' then Inr 8 else Inl ''expected integer''),
      json_Marshal =
        (\<lambda>m. Inr (case m ''title'' of None \<Rightarrow> ''{}'' | Some t \<Rightarrow> ''{title:'' @ t @ ''}'')),
      NewRequest_error = (\<lambda>method url. None),
      client_Do = server,
      Decode_Task =
        (\<lambda>b. if b = ''task7'' then Inr sample_task else Inl ''unexpected end of JSON input''),
      Decode_Tasks =
        (\<lambda>b. if b = ''[task7]'' then Inr [Some sample_task]
             else Inl ''unexpected end of JSON input''),
      time_Format = (\<lambda>t layout. decimal t @ ''s'')\<rparr>"

text \<open>
  A remote side for the sample runtime: it holds the task 7, refuses \<open>/tasks/9\<close> with a
  server error and knows no other task.
\<close>

definition sample_server :: "Request \<Rightarrow> error + Response" where
  "sample_server rq =
     (if URL rq = ''http://localhost:8080/api/v1/tasks/7'' then
        (if Method rq = ''DELETE'' then Inr \<lparr>StatusCode = 204, Response.Body = ''''\<rparr>
         else Inr \<lparr>StatusCode = 200, Response.Body = ''task7''\<rparr>)
      else if URL rq = ''http://localhost:8080/api/v1/tasks'' then
        (if Method rq = ''POST'' then Inr \<lparr>StatusCode = 201, Response.Body = ''task7''\<rparr>
         else Inr \<lparr>StatusCode = 200, Response.Body = ''[task7]''\<rparr>)
      else if URL rq = ''http://localhost:8080/api/v1/tasks/9'' then
        Inr \<lparr>StatusCode = 500, Response.Body = ''oops''\<rparr>
      else Inr \<lparr>StatusCode = 404, Response.Body = ''no such task''\<rparr>)"

definition sample_client :: Client where
  "sample_client = NewClient ''http://localhost:8080'' ''secret''"

definition sample_plan :: TaskResourceModel where
  "sample_plan =
     \<lparr>TaskResourceModel.ID = StringValue ''7'', TaskResourceModel.Title = StringValue ''Deploy'',
      TaskResourceModel.Description = StringNull, TaskResourceModel.DueDate = StringNull,
      TaskResourceModel.Priority = StringValue ''high'',
      TaskResourceModel.Status = StringValue ''completed'',
      TaskResourceModel.CreatedAt = StringUnknown, TaskResourceModel.UpdatedAt = StringUnknown\<rparr>"

definition empty_response :: "'m CallbackResponse" where
  "empty_response = \<lparr>State = None, Diagnostics = []\<rparr>"

text \<open>
  The sample runtime with Go's scanner in the place of the scanner that knows two
  identifiers, and one whose remote side answers \<open>GET /tasks\<close> with a list that holds a
  task and a \<open>null\<close>.
\<close>

definition scanning_runtime :: "nat runtime" where
  "scanning_runtime = (sample_runtime sample_server)\<lparr>Sscanf_d := fmt_Sscanf_d\<rparr>"

definition null_entry_runtime :: "nat runtime" where
  "null_entry_runtime =
     (sample_runtime (\<lambda>rq. Inr \<lparr>StatusCode = 200, Response.Body = ''[task7,null]''\<rparr>))
       \<lparr>Decode_Tasks :=
          (\<lambda>b. if b = ''[task7,null]'' then Inr [Some sample_task, None]
               else Inl ''unexpected end of JSON input'')\<rparr>"

definition imported_state :: TaskResourceModel where
  "imported_state = sample_plan\<lparr>TaskResourceModel.ID := StringValue ''7abc''\<rparr>"

section \<open>Decimal numbers of the samples\<close>

lemma Sprintf_d_samples:
  "Sprintf_d 7 = ''7''" "Sprintf_d 8 = ''8''" "Sprintf_d 9 = ''9''" "Sprintf_d 500 = ''500''"
  by (simp_all add: Sprintf_d_def decimal.simps)

lemma decimal_samples: "decimal 100 = ''100''" "decimal 200 = ''200''"
  by (simp_all add: decimal.simps)

lemma digit_at: "k < 10 \<Longrightarrow> ''0123456789'' ! k \<in> set ''0123456789''"
  by (rule nth_mem) simp

lemma decimal_chars: "set (decimal n) \<subseteq> set ''0123456789''"
proof (induction n rule: decimal.induct)
  case (1 n)
  show ?case
  proof (cases "n < 10")
    case True
    then have "decimal n = [''0123456789'' ! n]" by (subst decimal.simps) simp
    with digit_at [OF True] show ?thesis by simp
  next
    case False
    then have eq: "decimal n = decimal (n div 10) @ [''0123456789'' ! (n mod 10)]"
      by (subst decimal.simps) simp
    have "n mod 10 < 10" by simp
    from digit_at [OF this] 1 [OF False] show ?thesis
      unfolding eq by simp
  qed
qed

lemma Sprintf_d_chars: "set (Sprintf_d i) \<subseteq> insert CHR ''-'' (set ''0123456789'')"
proof (cases "i < 0")
  case True
  then have "set (Sprintf_d i) = insert CHR ''-'' (set (decimal (nat (- i))))"
    by (simp add: Sprintf_d_def)
  with decimal_chars [of "nat (- i)"] show ?thesis by blast
next
  case False
  then have "set (Sprintf_d i) = set (decimal (nat i))" by (simp add: Sprintf_d_def)
  with decimal_chars [of "nat i"] show ?thesis by blast
qed

lemma letter_is_no_digit: "CHR ''a'' \<notin> insert CHR ''-'' (set ''0123456789'')"
  by simp

lemma fmt_Sscanf_d_samples:
  "fmt_Sscanf_d ''7abc'' = Inr 7" "fmt_Sscanf_d ''7'' = Inr 7"
  "fmt_Sscanf_d ''seven'' = Inl ''expected integer''"
  by (simp_all add: fmt_Sscanf_d_def isDigit_def digits_value_def)

section \<open>Diagnostics\<close>

lemma set_Append: "set (Append ds new) = set ds \<union> set new"
  by (induction new arbitrary: ds) auto

lemma HasError_iff: "HasError ds \<longleftrightarrow> (\<exists>d \<in> set ds. severity d = SeverityError)"
  by (simp add: HasError_def list_ex_iff)

lemma AddError_mem:
  "\<lparr>severity = SeverityError, summary = s, detail = d\<rparr> \<in> set (AddError ds s d)"
  by (simp add: AddError_def set_Append)

lemma HasError_AddError: "HasError (AddError ds s d)"
  unfolding HasError_iff using AddError_mem [of s d ds] by force

section \<open>Requests of the client\<close>

text \<open>
  \<open>makeRequest\<close> sends nothing (the body could not be marshalled, or \<open>http.NewRequest\<close>
  refused) or exactly one request, whose parts are fixed by its arguments and the client.
\<close>

lemma makeRequest_sent:
  "snd (makeRequest rt c method path body) = [] \<or>
   (\<exists>reqBody. snd (makeRequest rt c method path body) =
      [\<lparr>Method = method, URL = Host c @ ''/api/v1'' @ path,
        Header = (if Token c = '''' then Map.empty else [''X-API-Token'' \<mapsto> Token c])
                   (''Content-Type'' \<mapsto> ''application/json''),
        Request.Body = reqBody\<rparr>] \<and>
      (case body of None \<Rightarrow> reqBody = None
       | Some m \<Rightarrow> \<exists>js. json_Marshal rt m = Inr js \<and> reqBody = Some js))"
  by (auto simp: makeRequest_def http_NewRequest_def Header_Set_def Let_def
           split: option.splits sum.splits)

lemma makeRequest_exchange:
  "rq \<in> set (snd (makeRequest rt c method path body)) \<Longrightarrow>
   makeRequest rt c method path body = (client_Do rt rq, [rq])"
  by (auto simp: makeRequest_def http_NewRequest_def Let_def split: option.splits sum.splits)

lemma makeRequest_accepted:
  "NewRequest_error rt method (Host c @ ''/api/v1'' @ path) = None \<Longrightarrow>
   length (snd (makeRequest rt c method path None)) = 1"
  by (simp add: makeRequest_def http_NewRequest_def Let_def)

lemma sent_CreateTask:
  "snd (CreateTask rt c title description dueDate priority) =
   snd (makeRequest rt c ''POST'' ''/tasks''
          (Some [''title'' \<mapsto> title, ''description'' \<mapsto> description,
                 ''due_date'' \<mapsto> dueDate, ''priority'' \<mapsto> priority]))"
  by (simp add: CreateTask_def Let_def split: prod.splits sum.splits)

lemma sent_GetTask:
  "snd (GetTask rt c task_id) =
   snd (makeRequest rt c ''GET'' (''/tasks/'' @ Sprintf_d task_id) None)"
  by (simp add: GetTask_def split: prod.splits sum.splits)

lemma sent_UpdateTask:
  "snd (UpdateTask rt c task_id title description dueDate priority status) =
   snd (makeRequest rt c ''PUT'' (''/tasks/'' @ Sprintf_d task_id)
          (Some [''title'' \<mapsto> title, ''description'' \<mapsto> description,
                 ''due_date'' \<mapsto> dueDate, ''priority'' \<mapsto> priority,
                 ''status'' \<mapsto> status]))"
  by (simp add: UpdateTask_def Let_def split: prod.splits sum.splits)

lemma sent_DeleteTask:
  "snd (DeleteTask rt c task_id) =
   snd (makeRequest rt c ''DELETE'' (''/tasks/'' @ Sprintf_d task_id) None)"
  by (simp add: DeleteTask_def split: prod.splits sum.splits)

lemma sent_ListTasks:
  "snd (ListTasks rt c) = snd (makeRequest rt c ''GET'' ''/tasks'' None)"
  by (simp add: ListTasks_def split: prod.splits sum.splits)

text \<open>
  C2. Every request that \<open>makeRequest\<close> sends has the method it was given and the URL
  \<open>host @ "/api/v1" @ path\<close>; it carries the header \<open>X-API-Token\<close>, with the token as its
  value, exactly when the client's token is not empty, and no header besides that one and
  \<open>Content-Type\<close>; a call with a body sends the marshalled JSON with
  \<open>Content-Type: application/json\<close>, a call without one sends no body. Each of the five
  operations sends what \<open>makeRequest\<close> sends for its method and path: \<open>POST /tasks\<close> and
  \<open>PUT /tasks/{id}\<close> with a body, \<open>GET\<close> and \<open>DELETE\<close> without.
\<close>

theorem makeRequest_contract:
  "(\<forall>rq \<in> set (snd (makeRequest rt c method path body)).
      Method rq = method \<and> URL rq = Host c @ ''/api/v1'' @ path \<and>
      Header rq ''X-API-Token'' = (if Token c = '''' then None else Some (Token c)) \<and>
      dom (Header rq) = (if Token c = '''' then {} else {''X-API-Token''}) \<union> {''Content-Type''} \<and>
      (case body of
         None \<Rightarrow> Request.Body rq = None
       | Some m \<Rightarrow> Header rq ''Content-Type'' = Some ''application/json'' \<and>
                  (\<exists>js. json_Marshal rt m = Inr js \<and> Request.Body rq = Some js))) \<and>
   snd (CreateTask rt c title description dueDate priority) =
     snd (makeRequest rt c ''POST'' ''/tasks''
            (Some [''title'' \<mapsto> title, ''description'' \<mapsto> description,
                   ''due_date'' \<mapsto> dueDate, ''priority'' \<mapsto> priority])) \<and>
   snd (GetTask rt c task_id) =
     snd (makeRequest rt c ''GET'' (''/tasks/'' @ Sprintf_d task_id) None) \<and>
   snd (UpdateTask rt c task_id title description dueDate priority status) =
     snd (makeRequest rt c ''PUT'' (''/tasks/'' @ Sprintf_d task_id)
            (Some [''title'' \<mapsto> title, ''description'' \<mapsto> description,
                   ''due_date'' \<mapsto> dueDate, ''priority'' \<mapsto> priority,
                   ''status'' \<mapsto> status])) \<and>
   snd (DeleteTask rt c task_id) =
     snd (makeRequest rt c ''DELETE'' (''/tasks/'' @ Sprintf_d task_id) None) \<and>
   snd (ListTasks rt c) = snd (makeRequest rt c ''GET'' ''/tasks'' None)"
proof -
  have "\<forall>rq \<in> set (snd (makeRequest rt c method path body)).
      Method rq = method \<and> URL rq = Host c @ ''/api/v1'' @ path \<and>
      Header rq ''X-API-Token'' = (if Token c = '''' then None else Some (Token c)) \<and>
      dom (Header rq) = (if Token c = '''' then {} else {''X-API-Token''}) \<union> {''Content-Type''} \<and>
      (case body of
         None \<Rightarrow> Request.Body rq = None
       | Some m \<Rightarrow> Header rq ''Content-Type'' = Some ''application/json'' \<and>
                  (\<exists>js. json_Marshal rt m = Inr js \<and> Request.Body rq = Some js))"
    using makeRequest_sent [of rt c "method" "path" body]
    by (auto split: option.splits if_splits)
  then show ?thesis
    by (simp only: sent_CreateTask sent_GetTask sent_UpdateTask sent_DeleteTask sent_ListTasks
          simp_thms)
qed

theorem makeRequest_contract_witness:
  "\<lparr>Method = ''POST'', URL = ''http://localhost:8080/api/v1/tasks'',
     Header = [''X-API-Token'' \<mapsto> ''secret'', ''Content-Type'' \<mapsto> ''application/json''],
     Request.Body = Some ''{title:Deploy}''\<rparr>
     \<in> set (snd (makeRequest (sample_runtime (\<lambda>rq. Inl ''connection refused'')) sample_client
                   ''POST'' ''/tasks'' (Some [''title'' \<mapsto> ''Deploy'']))) \<and>
   snd (GetTask (sample_runtime (\<lambda>rq. Inl ''connection refused'')) sample_client 7) =
     [\<lparr>Method = ''GET'', URL = ''http://localhost:8080/api/v1/tasks/7'',
       Header = [''X-API-Token'' \<mapsto> ''secret'', ''Content-Type'' \<mapsto> ''application/json''],
       Request.Body = None\<rparr>]"
  using makeRequest_contract [of "sample_runtime (\<lambda>rq. Inl ''connection refused'')" sample_client
      "''POST''" "''/tasks''" "Some [''title'' \<mapsto> ''Deploy'']" "''Deploy''" "''''" "''''" "''high''" 7]
  by (simp add: makeRequest_def http_NewRequest_def Header_Set_def sample_runtime_def
        sample_client_def NewClient_def Sprintf_d_def decimal.simps)

text \<open>
  C10. Every request of every operation, the bodiless \<open>GET\<close> and \<open>DELETE\<close> requests of
  \<open>GetTask\<close>, \<open>DeleteTask\<close> and \<open>ListTasks\<close> included, carries
  \<open>Content-Type: application/json\<close>, and carries the token in \<open>X-API-Token\<close> whenever the
  client's token is not empty.
\<close>

theorem every_request_has_headers:
  "(\<forall>rq \<in> set (snd (CreateTask rt c title description dueDate priority)).
      Header rq ''Content-Type'' = Some ''application/json'' \<and>
      (Token c \<noteq> '''' \<longrightarrow> Header rq ''X-API-Token'' = Some (Token c))) \<and>
   (\<forall>rq \<in> set (snd (GetTask rt c task_id)).
      Method rq = ''GET'' \<and> Request.Body rq = None \<and>
      Header rq ''Content-Type'' = Some ''application/json'' \<and>
      (Token c \<noteq> '''' \<longrightarrow> Header rq ''X-API-Token'' = Some (Token c))) \<and>
   (\<forall>rq \<in> set (snd (UpdateTask rt c task_id title description dueDate priority status)).
      Header rq ''Content-Type'' = Some ''application/json'' \<and>
      (Token c \<noteq> '''' \<longrightarrow> Header rq ''X-API-Token'' = Some (Token c))) \<and>
   (\<forall>rq \<in> set (snd (DeleteTask rt c task_id)).
      Method rq = ''DELETE'' \<and> Request.Body rq = None \<and>
      Header rq ''Content-Type'' = Some ''application/json'' \<and>
      (Token c \<noteq> '''' \<longrightarrow> Header rq ''X-API-Token'' = Some (Token c))) \<and>
   (\<forall>rq \<in> set (snd (ListTasks rt c)).
      Method rq = ''GET'' \<and> Request.Body rq = None \<and>
      Header rq ''Content-Type'' = Some ''application/json'' \<and>
      (Token c \<noteq> '''' \<longrightarrow> Header rq ''X-API-Token'' = Some (Token c)))"
proof -
  have all: "\<forall>rq \<in> set (snd (makeRequest rt c m p b)).
      Method rq = m \<and> (b = None \<longrightarrow> Request.Body rq = None) \<and>
      Header rq ''Content-Type'' = Some ''application/json'' \<and>
      (Token c \<noteq> '''' \<longrightarrow> Header rq ''X-API-Token'' = Some (Token c))"
    for m p b
    using makeRequest_sent [of rt c m p b] by auto
  show ?thesis
    unfolding sent_CreateTask sent_GetTask sent_UpdateTask sent_DeleteTask sent_ListTasks
    using all by simp
qed

theorem every_request_has_headers_witness:
  "(let rq = \<lparr>Method = ''GET'', URL = ''http://localhost:8080/api/v1/tasks'',
              Header = [''X-API-Token'' \<mapsto> ''secret'', ''Content-Type'' \<mapsto> ''application/json''],
              Request.Body = None\<rparr>
    in rq \<in> set (snd (ListTasks (sample_runtime (\<lambda>rq. Inl ''connection refused'')) sample_client)) \<and>
       Token sample_client \<noteq> '''' \<and>
       Header rq ''Content-Type'' = Some ''application/json'' \<and>
       Header rq ''X-API-Token'' = Some (Token sample_client))"
  using every_request_has_headers [of "sample_runtime (\<lambda>rq. Inl ''connection refused'')" sample_client
      "''Deploy''" "''''" "''''" "''high''" 7 "''pending''"]
  by (simp add: ListTasks_def makeRequest_def http_NewRequest_def Header_Set_def sample_runtime_def
        sample_client_def NewClient_def)

section \<open>Status codes of \<open>GetTask\<close> and \<open>DeleteTask\<close>\<close>



text \<open>
  C6. \<open>DeleteTask\<close> sends at most one request, and exactly one when \<open>http.NewRequest\<close>
  accepts it: a \<open>DELETE\<close> of \<open>/tasks/{id}\<close> under \<open>host/api/v1\<close>. When the transport
  answers with a response: status 404 gives the error "task with ID {id} not found";
  status 204 gives no error; any other status gives
  "API error: {body} (status: {code})". \<open>DeleteTask\<close> returns nothing but the error.
\<close>

theorem DeleteTask_contract:
  "(\<forall>rq \<in> set (snd (DeleteTask rt c task_id)).
      snd (DeleteTask rt c task_id) = [rq] \<and>
      Method rq = ''DELETE'' \<and> URL rq = Host c @ ''/api/v1/tasks/'' @ Sprintf_d task_id \<and>
      (\<forall>resp. client_Do rt rq = Inr resp \<longrightarrow>
         (StatusCode resp = 404 \<longrightarrow>
            fst (DeleteTask rt c task_id) =
              Some (''task with ID '' @ Sprintf_d task_id @ '' not found'')) \<and>
         (StatusCode resp = 204 \<longrightarrow> fst (DeleteTask rt c task_id) = None) \<and>
         (StatusCode resp \<noteq> 404 \<and> StatusCode resp \<noteq> 204 \<longrightarrow>
            fst (DeleteTask rt c task_id) =
              Some (''API error: '' @ Response.Body resp @ '' (status: ''
                    @ Sprintf_d (StatusCode resp) @ '')'')))) \<and>
   (NewRequest_error rt ''DELETE'' (Host c @ ''/api/v1/tasks/'' @ Sprintf_d task_id) = None \<longrightarrow>
      length (snd (DeleteTask rt c task_id)) = 1)"
proof -
  have "snd (DeleteTask rt c task_id) = [rq] \<and>
      Method rq = ''DELETE'' \<and> URL rq = Host c @ ''/api/v1/tasks/'' @ Sprintf_d task_id \<and>
      (\<forall>resp. client_Do rt rq = Inr resp \<longrightarrow>
         (StatusCode resp = 404 \<longrightarrow>
            fst (DeleteTask rt c task_id) =
              Some (''task with ID '' @ Sprintf_d task_id @ '' not found'')) \<and>
         (StatusCode resp = 204 \<longrightarrow> fst (DeleteTask rt c task_id) = None) \<and>
         (StatusCode resp \<noteq> 404 \<and> StatusCode resp \<noteq> 204 \<longrightarrow>
            fst (DeleteTask rt c task_id) =
              Some (''API error: '' @ Response.Body resp @ '' (status: ''
                    @ Sprintf_d (StatusCode resp) @ '')'')))"
    if sent: "rq \<in> set (snd (DeleteTask rt c task_id))" for rq
  proof -
    from sent have mem:
      "rq \<in> set (snd (makeRequest rt c ''DELETE'' (''/tasks/'' @ Sprintf_d task_id) None))"
      by (simp only: sent_DeleteTask)
    have ex: "makeRequest rt c ''DELETE'' (''/tasks/'' @ Sprintf_d task_id) None
                = (client_Do rt rq, [rq])"
      by (rule makeRequest_exchange [OF mem])
    have parts: "Method rq = ''DELETE'' \<and> URL rq = Host c @ ''/api/v1/tasks/'' @ Sprintf_d task_id"
      using makeRequest_sent [of rt c "''DELETE''" "''/tasks/'' @ Sprintf_d task_id" None] mem
      by auto
    show ?thesis
      unfolding DeleteTask_def ex using parts by (auto split: sum.splits)
  qed
  moreover have "length (snd (DeleteTask rt c task_id)) = 1"
    if "NewRequest_error rt ''DELETE'' (Host c @ ''/api/v1/tasks/'' @ Sprintf_d task_id) = None"
    using that makeRequest_accepted [of rt "''DELETE''" c "''/tasks/'' @ Sprintf_d task_id"]
    by (simp add: sent_DeleteTask)
  ultimately show ?thesis by simp
qed

theorem DeleteTask_contract_witness:
  "snd (DeleteTask (sample_runtime sample_server) sample_client 7) =
         [\<lparr>Method = ''DELETE'', URL = ''http://localhost:8080/api/v1/tasks/7'',
           Header = [''X-API-Token'' \<mapsto> ''secret'', ''Content-Type'' \<mapsto> ''application/json''],
           Request.Body = None\<rparr>] \<and>
       fst (DeleteTask (sample_runtime sample_server) sample_client 7) = None \<and>
       fst (DeleteTask (sample_runtime sample_server) sample_client 8) = Some ''task with ID 8 not found'' \<and>
       fst (DeleteTask (sample_runtime sample_server) sample_client 9) = Some ''API error: oops (status: 500)''"
  using DeleteTask_contract [of "sample_runtime sample_server" sample_client 7]
  by (simp add: DeleteTask_def makeRequest_def http_NewRequest_def Header_Set_def sample_runtime_def
        sample_client_def NewClient_def Sprintf_d_samples sample_server_def)

section \<open>The managed resource\<close>

text \<open>
  \<open>Read\<close>, \<open>Update\<close> and \<open>Delete\<close> scan the identifier of the struct that \<open>Get\<close> gave them
  (the state for \<open>Read\<close> and \<open>Delete\<close>, the plan for \<open>Update\<close>), once \<open>Get\<close> reported no
  error. When the scan fails, each of them adds the error diagnostic "Parse Error" to
  the response, leaves its state alone and sends no request. When the scan yields the
  integer \<open>n\<close>, the requests of the callback are those of \<open>GetTask n\<close>, of \<open>UpdateTask n\<close>
  with the strings of the plan, and of \<open>DeleteTask n\<close>. Which identifiers fail to scan is
  the scanner's matter.
\<close>

lemma scan_decides_the_call:
  assumes "\<not> HasError (Append (Diagnostics resp0) (fst got))"
  shows
    "(\<forall>err. Sscanf_d rt (ValueString (TaskResourceModel.ID (snd got))) = Inl err \<longrightarrow>
        TaskResource_Read rt c got resp0 =
          (resp0\<lparr>Diagnostics := AddError (Append (Diagnostics resp0) (fst got)) ''Parse Error''
                                    (''Unable to parse task ID: '' @ err)\<rparr>, []) \<and>
        TaskResource_Update rt c got resp0 =
          (resp0\<lparr>Diagnostics := AddError (Append (Diagnostics resp0) (fst got)) ''Parse Error''
                                    (''Unable to parse task ID: '' @ err)\<rparr>, []) \<and>
        TaskResource_Delete rt c got resp0 =
          (resp0\<lparr>Diagnostics := AddError (Append (Diagnostics resp0) (fst got)) ''Parse Error''
                                    (''Unable to parse task ID: '' @ err)\<rparr>, []) \<and>
        \<lparr>severity = SeverityError, summary = ''Parse Error'',
          detail = ''Unable to parse task ID: '' @ err\<rparr>
          \<in> set (AddError (Append (Diagnostics resp0) (fst got)) ''Parse Error''
                     (''Unable to parse task ID: '' @ err))) \<and>
     (\<forall>n. Sscanf_d rt (ValueString (TaskResourceModel.ID (snd got))) = Inr n \<longrightarrow>
        snd (TaskResource_Read rt c got resp0) = snd (GetTask rt c n) \<and>
        snd (TaskResource_Update rt c got resp0) =
          snd (UpdateTask rt c n
                 (ValueString (TaskResourceModel.Title (snd got)))
                 (ValueString (TaskResourceModel.Description (snd got)))
                 (ValueString (TaskResourceModel.DueDate (snd got)))
                 (ValueString (TaskResourceModel.Priority (snd got)))
                 (ValueString (TaskResourceModel.Status (snd got)))) \<and>
        snd (TaskResource_Delete rt c got resp0) = snd (DeleteTask rt c n))"
proof -
  have read: "snd (TaskResource_Read rt c got resp0) = snd (GetTask rt c n)"
    if "Sscanf_d rt (ValueString (TaskResourceModel.ID (snd got))) = Inr n" for n
    using assms that
    by (simp add: TaskResource_Read_def Let_def split: prod.splits sum.splits)
  have update: "snd (TaskResource_Update rt c got resp0) =
          snd (UpdateTask rt c n
                 (ValueString (TaskResourceModel.Title (snd got)))
                 (ValueString (TaskResourceModel.Description (snd got)))
                 (ValueString (TaskResourceModel.DueDate (snd got)))
                 (ValueString (TaskResourceModel.Priority (snd got)))
                 (ValueString (TaskResourceModel.Status (snd got))))"
    if "Sscanf_d rt (ValueString (TaskResourceModel.ID (snd got))) = Inr n" for n
    using assms that
    by (simp add: TaskResource_Update_def Let_def split: prod.splits sum.splits)
  have delete: "snd (TaskResource_Delete rt c got resp0) = snd (DeleteTask rt c n)"
    if "Sscanf_d rt (ValueString (TaskResourceModel.ID (snd got))) = Inr n" for n
    using assms that
    by (simp add: TaskResource_Delete_def Let_def split: prod.splits option.splits)
  have failed: "TaskResource_Read rt c got resp0 =
          (resp0\<lparr>Diagnostics := AddError (Append (Diagnostics resp0) (fst got)) ''Parse Error''
                                    (''Unable to parse task ID: '' @ err)\<rparr>, []) \<and>
        TaskResource_Update rt c got resp0 =
          (resp0\<lparr>Diagnostics := AddError (Append (Diagnostics resp0) (fst got)) ''Parse Error''
                                    (''Unable to parse task ID: '' @ err)\<rparr>, []) \<and>
        TaskResource_Delete rt c got resp0 =
          (resp0\<lparr>Diagnostics := AddError (Append (Diagnostics resp0) (fst got)) ''Parse Error''
                                    (''Unable to parse task ID: '' @ err)\<rparr>, [])"
    if "Sscanf_d rt (ValueString (TaskResourceModel.ID (snd got))) = Inl err" for err
    using assms that
    by (simp add: TaskResource_Read_def TaskResource_Update_def TaskResource_Delete_def Let_def)
  show ?thesis
    using read update delete failed AddError_mem by blast
qed

text \<open>The client and the callbacks at the identifier \<open>7abc\<close>, with Go's scanner.\<close>

lemma scanning_Sscanf_d: "Sscanf_d scanning_runtime ''7abc'' = Inr 7"
  by (simp add: scanning_runtime_def fmt_Sscanf_d_samples)

lemma scanning_time_Format: "time_Format scanning_runtime t layout = decimal t @ ''s''"
  by (simp add: scanning_runtime_def sample_runtime_def)

lemma scanning_GetTask:
  "GetTask scanning_runtime sample_client 7 =
   (Inr sample_task,
    [\<lparr>Method = ''GET'', URL = ''http://localhost:8080/api/v1/tasks/7'',
      Header = [''X-API-Token'' \<mapsto> ''secret'', ''Content-Type'' \<mapsto> ''application/json''],
      Request.Body = None\<rparr>])"
  by (simp add: scanning_runtime_def sample_runtime_def sample_client_def NewClient_def
        GetTask_def makeRequest_def http_NewRequest_def Header_Set_def sample_server_def
        Sprintf_d_samples)

lemma scanning_UpdateTask:
  "UpdateTask scanning_runtime sample_client 7 ''Deploy'' [] [] ''high'' ''completed'' =
   (Inr sample_task,
    [\<lparr>Method = ''PUT'', URL = ''http://localhost:8080/api/v1/tasks/7'',
      Header = [''X-API-Token'' \<mapsto> ''secret'', ''Content-Type'' \<mapsto> ''application/json''],
      Request.Body = Some ''{title:Deploy}''\<rparr>])"
  by (simp add: scanning_runtime_def sample_runtime_def sample_client_def NewClient_def
        UpdateTask_def makeRequest_def http_NewRequest_def Header_Set_def sample_server_def
        Sprintf_d_samples)

lemma scanning_DeleteTask:
  "DeleteTask scanning_runtime sample_client 7 =
   (None,
    [\<lparr>Method = ''DELETE'', URL = ''http://localhost:8080/api/v1/tasks/7'',
      Header = [''X-API-Token'' \<mapsto> ''secret'', ''Content-Type'' \<mapsto> ''application/json''],
      Request.Body = None\<rparr>])"
  by (simp add: scanning_runtime_def sample_runtime_def sample_client_def NewClient_def
        DeleteTask_def makeRequest_def http_NewRequest_def Header_Set_def sample_server_def
        Sprintf_d_samples)

lemma imported_state_strings:
  "ValueString (TaskResourceModel.ID imported_state) = ''7abc''"
  "ValueString (TaskResourceModel.Title imported_state) = ''Deploy''"
  "ValueString (TaskResourceModel.Description imported_state) = []"
  "ValueString (TaskResourceModel.DueDate imported_state) = []"
  "ValueString (TaskResourceModel.Priority imported_state) = ''high''"
  "ValueString (TaskResourceModel.Status imported_state) = ''completed''"
  by (simp_all add: imported_state_def sample_plan_def)

text \<open>
  C1. The specification has a malformed identifier end in a local parse error, with no
  remote call. The code does otherwise at the identifier \<open>7abc\<close>. It is the decimal form
  of no integer, and \<open>ImportState\<close> puts an identifier into the state as it was typed. Go's
  scanner reads 7 from it and reports no error. So \<open>Read\<close> asks the remote API for the task
  7 and stores that task under the identifier \<open>7abc\<close>, with no diagnostic; \<open>Update\<close> sends
  a \<open>PUT\<close> and \<open>Delete\<close> a \<open>DELETE\<close> for the task 7.
\<close>

theorem id_with_suffix_reaches_remote:
  "(\<forall>n. Sprintf_d n \<noteq> ''7abc'') \<and>
   Sscanf_d scanning_runtime (ValueString (TaskResourceModel.ID imported_state)) = Inr 7 \<and>
   TaskResource_Read scanning_runtime sample_client ([], imported_state)
       \<lparr>State = Some imported_state, Diagnostics = []\<rparr> =
     (\<lparr>State = Some \<lparr>TaskResourceModel.ID = StringValue ''7abc'',
                      TaskResourceModel.Title = StringValue ''Deploy'',
                      TaskResourceModel.Description = StringValue ''v2'',
                      TaskResourceModel.DueDate = StringValue ''2026-02-22'',
                      TaskResourceModel.Priority = StringValue ''high'',
                      TaskResourceModel.Status = StringValue ''pending'',
                      TaskResourceModel.CreatedAt = StringValue ''100s'',
                      TaskResourceModel.UpdatedAt = StringValue ''200s''\<rparr>,
       Diagnostics = []\<rparr>,
      [\<lparr>Method = ''GET'', URL = ''http://localhost:8080/api/v1/tasks/7'',
        Header = [''X-API-Token'' \<mapsto> ''secret'', ''Content-Type'' \<mapsto> ''application/json''],
        Request.Body = None\<rparr>]) \<and>
   snd (TaskResource_Update scanning_runtime sample_client ([], imported_state)
          \<lparr>State = Some imported_state, Diagnostics = []\<rparr>) =
     [\<lparr>Method = ''PUT'', URL = ''http://localhost:8080/api/v1/tasks/7'',
       Header = [''X-API-Token'' \<mapsto> ''secret'', ''Content-Type'' \<mapsto> ''application/json''],
       Request.Body = Some ''{title:Deploy}''\<rparr>] \<and>
   TaskResource_Delete scanning_runtime sample_client ([], imported_state)
       \<lparr>State = Some imported_state, Diagnostics = []\<rparr> =
     (\<lparr>State = Some imported_state, Diagnostics = []\<rparr>,
      [\<lparr>Method = ''DELETE'', URL = ''http://localhost:8080/api/v1/tasks/7'',
        Header = [''X-API-Token'' \<mapsto> ''secret'', ''Content-Type'' \<mapsto> ''application/json''],
        Request.Body = None\<rparr>])"
proof -
  have no_decimal: "Sprintf_d n \<noteq> ''7abc''" for n
  proof
    assume "Sprintf_d n = ''7abc''"
    then have "CHR ''a'' \<in> set (Sprintf_d n)" by simp
    with Sprintf_d_chars [of n] have "CHR ''a'' \<in> insert CHR ''-'' (set ''0123456789'')"
      by (rule_tac subsetD)
    with letter_is_no_digit show False by (rule_tac notE)
  qed
  have scan: "Sscanf_d scanning_runtime (ValueString (TaskResourceModel.ID imported_state)) = Inr 7"
    by (simp only: imported_state_strings scanning_Sscanf_d)
  have rd: "TaskResource_Read scanning_runtime sample_client ([], imported_state)
       \<lparr>State = Some imported_state, Diagnostics = []\<rparr> =
     (\<lparr>State = Some \<lparr>TaskResourceModel.ID = StringValue ''7abc'',
                      TaskResourceModel.Title = StringValue ''Deploy'',
                      TaskResourceModel.Description = StringValue ''v2'',
                      TaskResourceModel.DueDate = StringValue ''2026-02-22'',
                      TaskResourceModel.Priority = StringValue ''high'',
                      TaskResourceModel.Status = StringValue ''pending'',
                      TaskResourceModel.CreatedAt = StringValue ''100s'',
                      TaskResourceModel.UpdatedAt = StringValue ''200s''\<rparr>,
       Diagnostics = []\<rparr>,
      [\<lparr>Method = ''GET'', URL = ''http://localhost:8080/api/v1/tasks/7'',
        Header = [''X-API-Token'' \<mapsto> ''secret'', ''Content-Type'' \<mapsto> ''application/json''],
        Request.Body = None\<rparr>])"
    by (simp add: TaskResource_Read_def scanning_Sscanf_d scanning_GetTask scanning_time_Format
          HasError_def Let_def State_Set_def sample_task_def decimal_samples
          imported_state_def sample_plan_def)
  have up: "snd (TaskResource_Update scanning_runtime sample_client ([], imported_state)
          \<lparr>State = Some imported_state, Diagnostics = []\<rparr>) =
     [\<lparr>Method = ''PUT'', URL = ''http://localhost:8080/api/v1/tasks/7'',
       Header = [''X-API-Token'' \<mapsto> ''secret'', ''Content-Type'' \<mapsto> ''application/json''],
       Request.Body = Some ''{title:Deploy}''\<rparr>]"
    by (simp add: TaskResource_Update_def imported_state_strings scanning_Sscanf_d
          scanning_UpdateTask HasError_def Let_def)
  have del: "TaskResource_Delete scanning_runtime sample_client ([], imported_state)
       \<lparr>State = Some imported_state, Diagnostics = []\<rparr> =
     (\<lparr>State = Some imported_state, Diagnostics = []\<rparr>,
      [\<lparr>Method = ''DELETE'', URL = ''http://localhost:8080/api/v1/tasks/7'',
        Header = [''X-API-Token'' \<mapsto> ''secret'', ''Content-Type'' \<mapsto> ''application/json''],
        Request.Body = None\<rparr>])"
    by (simp add: TaskResource_Delete_def imported_state_strings scanning_Sscanf_d
          scanning_DeleteTask HasError_def Let_def)
  show ?thesis
    apply (intro conjI allI)
        apply (rule no_decimal)
       apply (rule scan)
      apply (rule rd)
     apply (rule up)
    apply (rule del)
    done
qed

text \<open>
  C4. When \<open>CreateTask\<close> returns an error, \<open>Create\<close> leaves the state of the response as it
  was and adds the error diagnostic "Client Error" with the client's message. The state
  changes only when the plan was read without error and \<open>CreateTask\<close> returned a task.
\<close>

theorem Create_error_leaves_no_state:
  "(\<forall>err. \<not> HasError (Append (Diagnostics resp0) (fst plan)) \<and>
          fst (CreateTask rt c
                 (ValueString (TaskResourceModel.Title (snd plan)))
                 (ValueString (TaskResourceModel.Description (snd plan)))
                 (ValueString (TaskResourceModel.DueDate (snd plan)))
                 (ValueString (TaskResourceModel.Priority (snd plan)))) = Inl err \<longrightarrow>
      State (fst (TaskResource_Create rt c plan resp0)) = State resp0 \<and>
      HasError (Diagnostics (fst (TaskResource_Create rt c plan resp0))) \<and>
      \<lparr>severity = SeverityError, summary = ''Client Error'',
        detail = ''Unable to create task, got error: '' @ err\<rparr>
        \<in> set (Diagnostics (fst (TaskResource_Create rt c plan resp0)))) \<and>
   (State (fst (TaskResource_Create rt c plan resp0)) \<noteq> State resp0 \<longrightarrow>
      \<not> HasError (Append (Diagnostics resp0) (fst plan)) \<and>
      (\<exists>task. fst (CreateTask rt c
                 (ValueString (TaskResourceModel.Title (snd plan)))
                 (ValueString (TaskResourceModel.Description (snd plan)))
                 (ValueString (TaskResourceModel.DueDate (snd plan)))
                 (ValueString (TaskResourceModel.Priority (snd plan)))) = Inr task))"
  by (auto simp: TaskResource_Create_def Let_def HasError_AddError AddError_mem
           split: prod.splits sum.splits)

theorem Create_error_leaves_no_state_witness:
  "\<not> HasError (Append (Diagnostics (empty_response :: TaskResourceModel CallbackResponse)) []) \<and>
   fst (CreateTask (sample_runtime (\<lambda>rq. Inl ''connection refused'')) sample_client
          ''Deploy'' [] [] ''high'') = Inl ''connection refused'' \<and>
   fst (TaskResource_Create (sample_runtime (\<lambda>rq. Inl ''connection refused'')) sample_client
          ([], sample_plan) empty_response) =
     \<lparr>State = None,
      Diagnostics = [\<lparr>severity = SeverityError, summary = ''Client Error'',
                      detail = ''Unable to create task, got error: connection refused''\<rparr>]\<rparr> \<and>
   State (fst (TaskResource_Create (sample_runtime sample_server) sample_client
                 ([], sample_plan) empty_response)) \<noteq> State (empty_response :: TaskResourceModel CallbackResponse) \<and>
   fst (CreateTask (sample_runtime sample_server) sample_client
          ''Deploy'' [] [] ''high'') = Inr sample_task"
  using Create_error_leaves_no_state [of empty_response "([], sample_plan)"
          "sample_runtime (\<lambda>rq. Inl ''connection refused'')" sample_client]
        Create_error_leaves_no_state [of empty_response "([], sample_plan)"
          "sample_runtime sample_server" sample_client]
  by (simp add: HasError_def empty_response_def sample_plan_def sample_runtime_def
        sample_client_def NewClient_def AddError_def TaskResource_Create_def CreateTask_def
        makeRequest_def http_NewRequest_def Header_Set_def State_Set_def sample_server_def)

lemma GetTask_not_found:
  assumes "rq \<in> set (snd (GetTask rt c task_id))" and "client_Do rt rq = Inr resp"
    and "StatusCode resp = 404"
  shows "fst (GetTask rt c task_id) = Inl (''task with ID '' @ Sprintf_d task_id @ '' not found'')"
proof -
  from assms(1)
  have mem: "rq \<in> set (snd (makeRequest rt c ''GET'' (''/tasks/'' @ Sprintf_d task_id) None))"
    by (simp only: sent_GetTask)
  show ?thesis
    unfolding GetTask_def makeRequest_exchange [OF mem] using assms(2,3) by simp
qed

text \<open>
  The framework hands \<open>Read\<close> a response that holds the prior state, so a state that
  \<open>Read\<close> leaves alone is a resource that stays.

  C5. When the state was read without error, its identifier scans to \<open>n\<close> and \<open>GetTask n\<close>
  returns a task, \<open>Read\<close> stores the prior identifier together with title, description,
  due date, priority, status and the two formatted time stamps of that task. When
  \<open>GetTask n\<close> returns an error, \<open>Read\<close> leaves the state alone and adds "Client Error"
  with the client's message; a 404 of the remote API is such an error, with the
  not-found message.
\<close>

theorem Read_overwrites_all_but_id:
  assumes "\<not> HasError (Append (Diagnostics resp0) (fst got))"
    and "Sscanf_d rt (ValueString (TaskResourceModel.ID (snd got))) = Inr n"
  shows
    "(\<forall>task. fst (GetTask rt c n) = Inr task \<longrightarrow>
        State (fst (TaskResource_Read rt c got resp0)) =
          Some \<lparr>TaskResourceModel.ID = TaskResourceModel.ID (snd got),
                TaskResourceModel.Title = StringValue (Task.Title task),
                TaskResourceModel.Description = StringValue (Task.Description task),
                TaskResourceModel.DueDate = StringValue (Task.DueDate task),
                TaskResourceModel.Priority = StringValue (Task.Priority task),
                TaskResourceModel.Status = StringValue (Task.Status task),
                TaskResourceModel.CreatedAt = StringValue
                  (time_Format rt (Task.CreatedAt task) ''2006-01-02T15:04:05Z07:00''),
                TaskResourceModel.UpdatedAt = StringValue
                  (time_Format rt (Task.UpdatedAt task) ''2006-01-02T15:04:05Z07:00'')\<rparr>) \<and>
     (\<forall>err. fst (GetTask rt c n) = Inl err \<longrightarrow>
        State (fst (TaskResource_Read rt c got resp0)) = State resp0 \<and>
        \<lparr>severity = SeverityError, summary = ''Client Error'',
          detail = ''Unable to read task, got error: '' @ err\<rparr>
          \<in> set (Diagnostics (fst (TaskResource_Read rt c got resp0)))) \<and>
     (\<forall>rq resp. rq \<in> set (snd (GetTask rt c n)) \<and> client_Do rt rq = Inr resp \<and>
        StatusCode resp = 404 \<longrightarrow>
        State (fst (TaskResource_Read rt c got resp0)) = State resp0 \<and>
        \<lparr>severity = SeverityError, summary = ''Client Error'',
          detail = ''Unable to read task, got error: task with ID '' @ Sprintf_d n @ '' not found''\<rparr>
          \<in> set (Diagnostics (fst (TaskResource_Read rt c got resp0))))"
proof -
  have ok: "State (fst (TaskResource_Read rt c got resp0)) =
          Some \<lparr>TaskResourceModel.ID = TaskResourceModel.ID (snd got),
                TaskResourceModel.Title = StringValue (Task.Title task),
                TaskResourceModel.Description = StringValue (Task.Description task),
                TaskResourceModel.DueDate = StringValue (Task.DueDate task),
                TaskResourceModel.Priority = StringValue (Task.Priority task),
                TaskResourceModel.Status = StringValue (Task.Status task),
                TaskResourceModel.CreatedAt = StringValue
                  (time_Format rt (Task.CreatedAt task) ''2006-01-02T15:04:05Z07:00''),
                TaskResourceModel.UpdatedAt = StringValue
                  (time_Format rt (Task.UpdatedAt task) ''2006-01-02T15:04:05Z07:00'')\<rparr>"
    if "fst (GetTask rt c n) = Inr task" for task
    using assms that
    by (cases "GetTask rt c n")
       (simp add: TaskResource_Read_def Let_def State_Set_def)
  have err: "State (fst (TaskResource_Read rt c got resp0)) = State resp0 \<and>
        \<lparr>severity = SeverityError, summary = ''Client Error'',
          detail = ''Unable to read task, got error: '' @ e\<rparr>
          \<in> set (Diagnostics (fst (TaskResource_Read rt c got resp0)))"
    if "fst (GetTask rt c n) = Inl e" for e
    using assms that
    by (cases "GetTask rt c n")
       (simp add: TaskResource_Read_def Let_def AddError_mem)
  have "State (fst (TaskResource_Read rt c got resp0)) = State resp0 \<and>
        \<lparr>severity = SeverityError, summary = ''Client Error'',
          detail = ''Unable to read task, got error: task with ID '' @ Sprintf_d n @ '' not found''\<rparr>
          \<in> set (Diagnostics (fst (TaskResource_Read rt c got resp0)))"
    if "rq \<in> set (snd (GetTask rt c n))" "client_Do rt rq = Inr resp" "StatusCode resp = 404"
    for rq resp
    using err [OF GetTask_not_found [OF that]] by simp
  with ok err show ?thesis by blast
qed

theorem Read_overwrites_all_but_id_witness:
  "\<not> HasError (Append (Diagnostics \<lparr>State = Some sample_plan, Diagnostics = []\<rparr>) []) \<and>
   Sscanf_d (sample_runtime sample_server) (ValueString (TaskResourceModel.ID sample_plan)) = Inr 7 \<and>
   fst (GetTask (sample_runtime sample_server) sample_client 7) = Inr sample_task \<and>
   State (fst (TaskResource_Read (sample_runtime sample_server) sample_client ([], sample_plan)
                 \<lparr>State = Some sample_plan, Diagnostics = []\<rparr>)) =
     Some \<lparr>TaskResourceModel.ID = StringValue ''7'',
           TaskResourceModel.Title = StringValue ''Deploy'',
           TaskResourceModel.Description = StringValue ''v2'',
           TaskResourceModel.DueDate = StringValue ''2026-02-22'',
           TaskResourceModel.Priority = StringValue ''high'',
           TaskResourceModel.Status = StringValue ''pending'',
           TaskResourceModel.CreatedAt = StringValue ''100s'',
           TaskResourceModel.UpdatedAt = StringValue ''200s''\<rparr> \<and>
   Sscanf_d (sample_runtime sample_server)
     (ValueString (TaskResourceModel.ID (sample_plan\<lparr>TaskResourceModel.ID := StringValue ''8''\<rparr>)))
     = Inr 8 \<and>
   fst (TaskResource_Read (sample_runtime sample_server) sample_client
          ([], sample_plan\<lparr>TaskResourceModel.ID := StringValue ''8''\<rparr>)
          \<lparr>State = Some (sample_plan\<lparr>TaskResourceModel.ID := StringValue ''8''\<rparr>),
           Diagnostics = []\<rparr>) =
     \<lparr>State = Some (sample_plan\<lparr>TaskResourceModel.ID := StringValue ''8''\<rparr>),
      Diagnostics = [\<lparr>severity = SeverityError, summary = ''Client Error'',
                      detail = ''Unable to read task, got error: task with ID 8 not found''\<rparr>]\<rparr>"
  using Read_overwrites_all_but_id [of "\<lparr>State = Some sample_plan, Diagnostics = []\<rparr>"
          "([], sample_plan)" "sample_runtime sample_server" 7 sample_client]
        Read_overwrites_all_but_id [of
          "\<lparr>State = Some (sample_plan\<lparr>TaskResourceModel.ID := StringValue ''8''\<rparr>),
            Diagnostics = []\<rparr>"
          "([], sample_plan\<lparr>TaskResourceModel.ID := StringValue ''8''\<rparr>)"
          "sample_runtime sample_server" 8 sample_client]
  by (simp add: HasError_def sample_plan_def sample_runtime_def sample_task_def
        sample_client_def NewClient_def AddError_def TaskResource_Read_def GetTask_def
        makeRequest_def http_NewRequest_def Header_Set_def State_Set_def sample_server_def
        Sprintf_d_samples decimal_samples)

text \<open>
  C9. The status of the plan plays no part in \<open>Create\<close>: the response and the requests
  are the same whatever it is. Every request of \<open>Create\<close> is a \<open>POST\<close> whose body is the
  marshalled map of the plan's title, description, due date and priority, a map with
  exactly the keys \<open>title\<close>, \<open>description\<close>, \<open>due_date\<close> and \<open>priority\<close>. On success the
  status stored in the state is the status of the task the server returned.
\<close>

theorem Create_never_sends_status:
  "TaskResource_Create rt c (ds, data\<lparr>TaskResourceModel.Status := s\<rparr>) resp0 =
     TaskResource_Create rt c (ds, data) resp0 \<and>
   (\<forall>rq \<in> set (snd (TaskResource_Create rt c (ds, data) resp0)).
      Method rq = ''POST'' \<and>
      (\<exists>js. json_Marshal rt
               [''title'' \<mapsto> ValueString (TaskResourceModel.Title data),
                ''description'' \<mapsto> ValueString (TaskResourceModel.Description data),
                ''due_date'' \<mapsto> ValueString (TaskResourceModel.DueDate data),
                ''priority'' \<mapsto> ValueString (TaskResourceModel.Priority data)] = Inr js \<and>
            Request.Body rq = Some js)) \<and>
   dom [''title'' \<mapsto> ValueString (TaskResourceModel.Title data),
        ''description'' \<mapsto> ValueString (TaskResourceModel.Description data),
        ''due_date'' \<mapsto> ValueString (TaskResourceModel.DueDate data),
        ''priority'' \<mapsto> ValueString (TaskResourceModel.Priority data)]
     = {''title'', ''description'', ''due_date'', ''priority''} \<and>
   (\<forall>task. \<not> HasError (Append (Diagnostics resp0) ds) \<and>
      fst (CreateTask rt c
             (ValueString (TaskResourceModel.Title data))
             (ValueString (TaskResourceModel.Description data))
             (ValueString (TaskResourceModel.DueDate data))
             (ValueString (TaskResourceModel.Priority data))) = Inr task \<longrightarrow>
      map_option TaskResourceModel.Status (State (fst (TaskResource_Create rt c (ds, data) resp0)))
        = Some (StringValue (Task.Status task)))"
proof -
  have same: "TaskResource_Create rt c (ds, data\<lparr>TaskResourceModel.Status := s\<rparr>) resp0 =
     TaskResource_Create rt c (ds, data) resp0"
    by (simp add: TaskResource_Create_def Let_def split: prod.splits sum.splits)
  have sent: "snd (TaskResource_Create rt c (ds, data) resp0) = [] \<or>
     snd (TaskResource_Create rt c (ds, data) resp0) =
       snd (makeRequest rt c ''POST'' ''/tasks''
          (Some [''title'' \<mapsto> ValueString (TaskResourceModel.Title data),
                ''description'' \<mapsto> ValueString (TaskResourceModel.Description data),
                ''due_date'' \<mapsto> ValueString (TaskResourceModel.DueDate data),
                ''priority'' \<mapsto> ValueString (TaskResourceModel.Priority data)]))"
    unfolding sent_CreateTask [symmetric]
    by (simp add: TaskResource_Create_def Let_def split: prod.splits sum.splits)
  have body: "\<forall>rq \<in> set (snd (TaskResource_Create rt c (ds, data) resp0)).
      Method rq = ''POST'' \<and>
      (\<exists>js. json_Marshal rt
               [''title'' \<mapsto> ValueString (TaskResourceModel.Title data),
                ''description'' \<mapsto> ValueString (TaskResourceModel.Description data),
                ''due_date'' \<mapsto> ValueString (TaskResourceModel.DueDate data),
                ''priority'' \<mapsto> ValueString (TaskResourceModel.Priority data)] = Inr js \<and>
            Request.Body rq = Some js)"
    using sent
      makeRequest_sent [of rt c "''POST''" "''/tasks''"
        "Some [''title'' \<mapsto> ValueString (TaskResourceModel.Title data),
                ''description'' \<mapsto> ValueString (TaskResourceModel.Description data),
                ''due_date'' \<mapsto> ValueString (TaskResourceModel.DueDate data),
                ''priority'' \<mapsto> ValueString (TaskResourceModel.Priority data)]"]
    by auto
  have keys: "dom [''title'' \<mapsto> ValueString (TaskResourceModel.Title data),
        ''description'' \<mapsto> ValueString (TaskResourceModel.Description data),
        ''due_date'' \<mapsto> ValueString (TaskResourceModel.DueDate data),
        ''priority'' \<mapsto> ValueString (TaskResourceModel.Priority data)]
     = {''title'', ''description'', ''due_date'', ''priority''}"
    by auto
  have status: "map_option TaskResourceModel.Status
          (State (fst (TaskResource_Create rt c (ds, data) resp0)))
        = Some (StringValue (Task.Status task))"
    if "\<not> HasError (Append (Diagnostics resp0) ds)"
      "fst (CreateTask rt c
             (ValueString (TaskResourceModel.Title data))
             (ValueString (TaskResourceModel.Description data))
             (ValueString (TaskResourceModel.DueDate data))
             (ValueString (TaskResourceModel.Priority data))) = Inr task" for task
    using that
    by (cases "CreateTask rt c
             (ValueString (TaskResourceModel.Title data))
             (ValueString (TaskResourceModel.Description data))
             (ValueString (TaskResourceModel.DueDate data))
             (ValueString (TaskResourceModel.Priority data))")
       (simp add: TaskResource_Create_def Let_def State_Set_def)
  from same body keys status show ?thesis by blast
qed

theorem Create_never_sends_status_witness:
  "TaskResourceModel.Status sample_plan = StringValue ''completed'' \<and>
   \<not> HasError (Append (Diagnostics (empty_response :: TaskResourceModel CallbackResponse)) []) \<and>
   \<lparr>Method = ''POST'', URL = ''http://localhost:8080/api/v1/tasks'',
     Header = [''X-API-Token'' \<mapsto> ''secret'', ''Content-Type'' \<mapsto> ''application/json''],
     Request.Body = Some ''{title:Deploy}''\<rparr>
     \<in> set (snd (TaskResource_Create (sample_runtime sample_server) sample_client
                   ([], sample_plan) empty_response)) \<and>
   fst (CreateTask (sample_runtime sample_server) sample_client ''Deploy'' [] [] ''high'')
     = Inr sample_task \<and>
   map_option TaskResourceModel.Status
     (State (fst (TaskResource_Create (sample_runtime sample_server) sample_client
                    ([], sample_plan) empty_response))) = Some (StringValue ''pending'')"
  using Create_never_sends_status [where rt = "sample_runtime sample_server"
          and c = sample_client and ds = "[]" and data = sample_plan and s = StringNull
          and ?resp0.0 = empty_response]
  by (simp add: HasError_def empty_response_def sample_plan_def sample_runtime_def sample_task_def
        sample_client_def NewClient_def TaskResource_Create_def CreateTask_def
        makeRequest_def http_NewRequest_def Header_Set_def State_Set_def sample_server_def)

section \<open>The task-list data source\<close>

text \<open>The loop over a list without nil entries is a map; a nil entry makes it panic.\<close>

lemma Read_loop_map:
  "Read_loop rt (map Some tasks) =
   Returns (map (\<lambda>task.
     \<lparr>TaskDataSourceModel.ID = StringValue (Sprintf_d (Task.ID task)),
      TaskDataSourceModel.Title = StringValue (Task.Title task),
      TaskDataSourceModel.Description = StringValue (Task.Description task),
      TaskDataSourceModel.DueDate = StringValue (Task.DueDate task),
      TaskDataSourceModel.Priority = StringValue (Task.Priority task),
      TaskDataSourceModel.Status = StringValue (Task.Status task),
      TaskDataSourceModel.CreatedAt = StringValue
        (time_Format rt (Task.CreatedAt task) ''2006-01-02T15:04:05Z07:00''),
      TaskDataSourceModel.UpdatedAt = StringValue
        (time_Format rt (Task.UpdatedAt task) ''2006-01-02T15:04:05Z07:00'')\<rparr>) tasks)"
  by (induction tasks) simp_all

lemma Read_loop_nil_entry: "None \<in> set tasks \<Longrightarrow> Read_loop rt tasks = Panics"
proof (induction tasks)
  case Nil
  then show ?case by simp
next
  case (Cons t tasks)
  then show ?case by (cases t) (auto split: go_result.splits)
qed

text \<open>
  When the configuration was read without error and \<open>ListTasks\<close> returns tasks with no nil
  entry among them, \<open>Read\<close> returns and stores a list of the same length whose \<open>i\<close>-th
  entry is made of the \<open>i\<close>-th task: the identifier in decimal, the five strings, the two
  time stamps formatted with the layout \<open>2006-01-02T15:04:05Z07:00\<close>; the identifier of
  the data source itself is the string \<open>tasks\<close>. Each entry is the state the single-task
  data source stores when it is asked for that task's identifier and \<open>GetTask\<close> returns
  that task.
\<close>

lemma Tasks_Read_maps_in_order:
  assumes "\<not> HasError (Append (Diagnostics resp0) (fst config))"
    and "fst (ListTasks rt c) = Inr (map Some tasks)"
  shows
    "(\<exists>models.
        fst (TasksDataSource_Read rt c config resp0) =
          Returns (resp0\<lparr>State := Some \<lparr>Tasks = models,
                                         TasksDataSourceModel.ID = StringValue ''tasks''\<rparr>,
                         Diagnostics := Append (Diagnostics resp0) (fst config)\<rparr>) \<and>
        length models = length tasks \<and>
        (\<forall>i < length tasks.
           models ! i =
             \<lparr>TaskDataSourceModel.ID = StringValue (Sprintf_d (Task.ID (tasks ! i))),
              TaskDataSourceModel.Title = StringValue (Task.Title (tasks ! i)),
              TaskDataSourceModel.Description = StringValue (Task.Description (tasks ! i)),
              TaskDataSourceModel.DueDate = StringValue (Task.DueDate (tasks ! i)),
              TaskDataSourceModel.Priority = StringValue (Task.Priority (tasks ! i)),
              TaskDataSourceModel.Status = StringValue (Task.Status (tasks ! i)),
              TaskDataSourceModel.CreatedAt = StringValue
                (time_Format rt (Task.CreatedAt (tasks ! i)) ''2006-01-02T15:04:05Z07:00''),
              TaskDataSourceModel.UpdatedAt = StringValue
                (time_Format rt (Task.UpdatedAt (tasks ! i)) ''2006-01-02T15:04:05Z07:00'')\<rparr>) \<and>
        (\<forall>i < length tasks. \<forall>single r0.
           \<not> HasError (Append (Diagnostics r0) (fst single)) \<and>
           TaskDataSourceModel.ID (snd single) = StringValue (Sprintf_d (Task.ID (tasks ! i))) \<and>
           Sscanf_d rt (Sprintf_d (Task.ID (tasks ! i))) = Inr (Task.ID (tasks ! i)) \<and>
           fst (GetTask rt c (Task.ID (tasks ! i))) = Inr (tasks ! i) \<longrightarrow>
           State (fst (TaskDataSource_Read rt c single r0)) = Some (models ! i)))"
proof -
  let ?shape = "\<lambda>task.
     \<lparr>TaskDataSourceModel.ID = StringValue (Sprintf_d (Task.ID task)),
      TaskDataSourceModel.Title = StringValue (Task.Title task),
      TaskDataSourceModel.Description = StringValue (Task.Description task),
      TaskDataSourceModel.DueDate = StringValue (Task.DueDate task),
      TaskDataSourceModel.Priority = StringValue (Task.Priority task),
      TaskDataSourceModel.Status = StringValue (Task.Status task),
      TaskDataSourceModel.CreatedAt = StringValue
        (time_Format rt (Task.CreatedAt task) ''2006-01-02T15:04:05Z07:00''),
      TaskDataSourceModel.UpdatedAt = StringValue
        (time_Format rt (Task.UpdatedAt task) ''2006-01-02T15:04:05Z07:00'')\<rparr>"
  have run: "fst (TasksDataSource_Read rt c config resp0) =
          Returns (resp0\<lparr>State := Some \<lparr>Tasks = map ?shape tasks,
                                         TasksDataSourceModel.ID = StringValue ''tasks''\<rparr>,
                         Diagnostics := Append (Diagnostics resp0) (fst config)\<rparr>)"
    using assms
    by (cases "ListTasks rt c"; cases "snd config")
       (simp add: TasksDataSource_Read_def Let_def State_Set_def Read_loop_map)
  have single: "State (fst (TaskDataSource_Read rt c single r0)) = Some (?shape task)"
    if "\<not> HasError (Append (Diagnostics r0) (fst single))"
      "TaskDataSourceModel.ID (snd single) = StringValue (Sprintf_d (Task.ID task))"
      "Sscanf_d rt (Sprintf_d (Task.ID task)) = Inr (Task.ID task)"
      "fst (GetTask rt c (Task.ID task)) = Inr task" for single r0 task
    using that
    by (cases "GetTask rt c (Task.ID task)"; cases "snd single")
       (simp add: TaskDataSource_Read_def Let_def State_Set_def)
  show ?thesis
    by (rule exI [of _ "map ?shape tasks"]) (simp add: run single)
qed

text \<open>
  C7. The specification has every successful \<open>ListTasks\<close> response mapped, entry by entry,
  into a stored list of the same length. The code does otherwise for a list with a \<open>null\<close>
  in it. When the remote API answers \<open>GET /tasks\<close> with status 200 and a list that holds a
  task and a \<open>null\<close>, \<open>ListTasks\<close> returns the two entries with no error, and \<open>Read\<close>
  panics at the nil entry after the request: it maps no task, stores nothing and returns
  no response.
\<close>

theorem nil_entry_panics_Read:
  "fst (ListTasks null_entry_runtime sample_client) = Inr [Some sample_task, None] \<and>
   TasksDataSource_Read null_entry_runtime sample_client
       ([], \<lparr>Tasks = [], TasksDataSourceModel.ID = StringNull\<rparr>) empty_response =
     (Panics,
      [\<lparr>Method = ''GET'', URL = ''http://localhost:8080/api/v1/tasks'',
        Header = [''X-API-Token'' \<mapsto> ''secret'', ''Content-Type'' \<mapsto> ''application/json''],
        Request.Body = None\<rparr>])"
  by (simp add: TasksDataSource_Read_def ListTasks_def HasError_def empty_response_def
        null_entry_runtime_def sample_runtime_def sample_client_def NewClient_def
        makeRequest_def http_NewRequest_def Header_Set_def)

section \<open>The provider\<close>

text \<open>
  C8. When the configuration was read without error: a host that is null or the empty
  string makes \<open>Configure\<close> build the client with the host \<open>http://localhost:8080\<close>; a host
  that is a non-empty string is the host of the client as it stands. The same client is
  left for the resources and for the data sources.
\<close>

theorem Configure_default_host:
  assumes "\<not> HasError (Append (ConfigureResponse.Diagnostics resp0) (fst config))"
  shows
    "(TaskMateProviderModel.Host (snd config) = StringNull \<or>
      TaskMateProviderModel.Host (snd config) = StringValue '''' \<longrightarrow>
        ResourceData (TaskMateProvider_Configure config resp0) =
          Some (NewClient ''http://localhost:8080''
                  (ValueString (TaskMateProviderModel.Token (snd config)))) \<and>
        DataSourceData (TaskMateProvider_Configure config resp0) =
          ResourceData (TaskMateProvider_Configure config resp0)) \<and>
     (\<forall>h. h \<noteq> '''' \<and> TaskMateProviderModel.Host (snd config) = StringValue h \<longrightarrow>
        ResourceData (TaskMateProvider_Configure config resp0) =
          Some (NewClient h (ValueString (TaskMateProviderModel.Token (snd config)))) \<and>
        DataSourceData (TaskMateProvider_Configure config resp0) =
          ResourceData (TaskMateProvider_Configure config resp0)) \<and>
     (\<forall>h t. Client.Host (NewClient h t) = h)"
  using assms by (auto simp: TaskMateProvider_Configure_def Let_def NewClient_def)

theorem Configure_default_host_witness:
  "\<not> HasError (Append (ConfigureResponse.Diagnostics
       \<lparr>DataSourceData = None, ResourceData = None, ConfigureResponse.Diagnostics = []\<rparr>) []) \<and>
   map_option Client.Host (ResourceData (TaskMateProvider_Configure
       ([], \<lparr>TaskMateProviderModel.Host = StringNull, TaskMateProviderModel.Token = StringValue ''secret''\<rparr>)
       \<lparr>DataSourceData = None, ResourceData = None, ConfigureResponse.Diagnostics = []\<rparr>))
     = Some ''http://localhost:8080'' \<and>
   map_option Client.Host (ResourceData (TaskMateProvider_Configure
       ([], \<lparr>TaskMateProviderModel.Host = StringValue ''https://tasks.example.com'',
             TaskMateProviderModel.Token = StringNull\<rparr>)
       \<lparr>DataSourceData = None, ResourceData = None, ConfigureResponse.Diagnostics = []\<rparr>))
     = Some ''https://tasks.example.com''"
  using Configure_default_host [of
          "\<lparr>DataSourceData = None, ResourceData = None, ConfigureResponse.Diagnostics = []\<rparr>"
          "([], \<lparr>TaskMateProviderModel.Host = StringNull,
                 TaskMateProviderModel.Token = StringValue ''secret''\<rparr>)"]
        Configure_default_host [of
          "\<lparr>DataSourceData = None, ResourceData = None, ConfigureResponse.Diagnostics = []\<rparr>"
          "([], \<lparr>TaskMateProviderModel.Host = StringValue ''https://tasks.example.com'',
                 TaskMateProviderModel.Token = StringNull\<rparr>)"]
  by (simp add: HasError_def NewClient_def)

end
